theory Spec2Isabelle
  imports Main "HOL-Library.Sublist"
begin

section \<open>Data model of the README preview component\<close>

text \<open>
  The component \<^verbatim>\<open>ReadmePreview\<close> (src/components/ReadmePreview.tsx) receives a list
  of elements and a view mode, filters the elements by a static visibility table and turns
  the visible ones into markdown text.

  Strings are \<^typ>\<open>string\<close>, read as the UTF-8 bytes of the text: the four non-ASCII
  symbols of the templates are written as their byte sequences. Concatenation,
  \<^verbatim>\<open>join\<close> and comparison with an ASCII literal act on these bytes as they do on the
  text. The two library calls that inspect characters (\<^verbatim>\<open>toLowerCase\<close> and the
  \<^verbatim>\<open>\s\<close> class of the badge template) are modelled on the ASCII range and leave every
  other byte as it is.
\<close>

datatype ViewMode = developer | recruiter | client

text \<open>
  Modelled from the spec: the declaration of \<^verbatim>\<open>ElementType\<close> (module
  \<^verbatim>\<open>@/types/elements\<close>) is not among the sources. The spec describes it as a closed
  tagged union whose kind decides which fields are present. The record below carries the
  discriminant \<^verbatim>\<open>type\<close> and every field that this component reads; a field that a
  kind does not have is never read for an element of that kind. The discriminant is a
  string, compared exactly as the source does; the model puts no restriction on it.
  \<^verbatim>\<open>language\<close> is optional (the source supplies a default for it).
\<close>

record element =
  type :: string
  content :: string
  username :: string
  repository :: string
  layout :: string
  technologies :: "string list"
  alt :: string
  src :: string
  language :: "string option"
  headers :: "string list"
  rows :: "string list list"
  dividerStyle :: string

text \<open>
  What the body of the component can see: its two props (\<^verbatim>\<open>viewMode\<close> is optional)
  and the local UI state (the \<^verbatim>\<open>copied\<close> flag, the theme and the colour scheme of the
  system).
\<close>

record component =
  elements :: "element list"
  viewMode :: "ViewMode option"
  copied :: bool
  theme :: string
  prefersDark :: bool

text \<open>The only run-time failure the code of this component could raise by itself.\<close>

datatype error = TypeError

section \<open>Visibility filter\<close>

text \<open>The destructuring default \<^verbatim>\<open>viewMode = 'developer'\<close> of the props.\<close>

definition currentMode :: "component \<Rightarrow> ViewMode" where
  "currentMode c = (case viewMode c of None \<Rightarrow> developer | Some m \<Rightarrow> m)"

definition visibilityMap :: "(string \<times> ViewMode list) list" where
  "visibilityMap =
    [(''header'', [developer, recruiter, client]),
     (''description'', [developer, recruiter, client]),
     (''badges'', [developer, recruiter]),
     (''installation'', [developer]),
     (''usage'', [developer, client]),
     (''codeblock'', [developer]),
     (''features'', [developer, recruiter, client]),
     (''screenshot'', [recruiter, client]),
     (''demo'', [recruiter, client]),
     (''api'', [developer]),
     (''contributing'', [developer]),
     (''license'', [developer, recruiter]),
     (''contact'', [developer, recruiter, client]),
     (''changelog'', [developer]),
     (''roadmap'', [developer, recruiter]),
     (''acknowledgments'', [developer]),
     (''faq'', [client]),
     (''support'', [client]),
     (''sponsors'', [recruiter, client]),
     (''stats'', [recruiter]),
     (''skills'', [recruiter]),
     (''tech'', [developer, recruiter]),
     (''highlights'', [recruiter, client]),
     (''branding'', [client]),
     (''banner'', [client, recruiter]),
     (''logo'', [client, recruiter])]"

text \<open>
  \<^verbatim>\<open>visibilityMap\<close> is a plain object literal, so reading \<^verbatim>\<open>visibilityMap[k]\<close>
  also finds the members that every object inherits from \<^verbatim>\<open>Object.prototype\<close>.
  These are their names.
\<close>

definition inheritedMembers :: "string list" where
  "inheritedMembers =
    [''constructor'', ''__defineGetter__'', ''__defineSetter__'', ''hasOwnProperty'',
     ''__lookupGetter__'', ''__lookupSetter__'', ''isPrototypeOf'', ''propertyIsEnumerable'',
     ''toString'', ''valueOf'', ''__proto__'', ''toLocaleString'']"

text \<open>
  The value of \<^verbatim>\<open>visibilityMap[element.type] || ['developer', 'recruiter', 'client']\<close>:
  the array of an own key (an array is truthy even when empty), or an inherited member (a
  function, or the prototype object for \<^verbatim>\<open>__proto__\<close>: truthy, and not an array), or
  the default array when the read gives \<^verbatim>\<open>undefined\<close>.
\<close>

datatype lookup = Modes "ViewMode list" | Inherited

definition allowed :: "element \<Rightarrow> lookup" where
  "allowed e =
    (case map_of visibilityMap (type e) of
       Some modes \<Rightarrow> Modes modes
     | None \<Rightarrow>
         if type e \<in> set inheritedMembers then Inherited
         else Modes [developer, recruiter, client])"

text \<open>
  The callback of \<^verbatim>\<open>elements.filter\<close>: \<^verbatim>\<open>allowed.includes(viewMode)\<close>. An inherited
  member has no \<^verbatim>\<open>includes\<close>, and the call raises a TypeError.
\<close>

definition isVisible :: "ViewMode \<Rightarrow> element \<Rightarrow> error + bool" where
  "isVisible m e =
    (case allowed e of
       Modes modes \<Rightarrow> Inr (m \<in> set modes)
     | Inherited \<Rightarrow> Inl TypeError)"

text \<open>
  \<^verbatim>\<open>Array.prototype.filter\<close> with a callback that may raise: the elements are visited
  in order and the first failure ends the call.
\<close>

fun filterElements :: "('a \<Rightarrow> error + bool) \<Rightarrow> 'a list \<Rightarrow> error + 'a list" where
  "filterElements p [] = Inr []"
| "filterElements p (x # xs) =
    (case p x of
       Inl err \<Rightarrow> Inl err
     | Inr keep \<Rightarrow>
         (case filterElements p xs of
            Inl err \<Rightarrow> Inl err
          | Inr ys \<Rightarrow> Inr (if keep then x # ys else ys)))"

text \<open>
  The list that the callback of \<^verbatim>\<open>useMemo\<close> computes from the props of the current
  render. The cache that \<^verbatim>\<open>useMemo\<close> keeps around this computation is the subject of
  the section on the memoised list below.
\<close>

definition filteredElements :: "component \<Rightarrow> error + element list" where
  "filteredElements c = filterElements (isVisible (currentMode c)) (elements c)"

text \<open>
  The visibility rule in the words of the specification: the kind maps to a set of view
  modes that contains the current one, and a kind without an entry is visible everywhere.
\<close>

definition specVisible :: "ViewMode \<Rightarrow> element \<Rightarrow> bool" where
  "specVisible m e =
    (case map_of visibilityMap (type e) of
       None \<Rightarrow> True
     | Some modes \<Rightarrow> m \<in> set modes)"

section \<open>Markdown generator\<close>

text \<open>\<^verbatim>\<open>Array.prototype.join\<close> on an array of strings.\<close>

fun join :: "string \<Rightarrow> string list \<Rightarrow> string" where
  "join sep [] = []"
| "join sep [x] = x"
| "join sep (x # y # ys) = x @ sep @ join sep (y # ys)"

text \<open>\<^verbatim>\<open>String.prototype.toLowerCase\<close>, on the ASCII letters.\<close>

definition lowerChar :: "char \<Rightarrow> char" where
  "lowerChar ch =
    (let n = (of_char ch :: nat) in if 65 \<le> n \<and> n \<le> 90 then char_of (n + 32) else ch)"

definition toLowerCase :: "string \<Rightarrow> string" where
  "toLowerCase s = map lowerChar s"

text \<open>
  \<^verbatim>\<open>content.replace(/\s+/g, '%20')\<close>: every maximal run of white space becomes one
  \<^verbatim>\<open>%20\<close>. The flag says whether the previous character belonged to a run.
\<close>

definition isSpace :: "char \<Rightarrow> bool" where
  "isSpace ch = ((of_char ch :: nat) \<in> {9, 10, 11, 12, 13, 32})"

fun replaceSpaces :: "bool \<Rightarrow> string \<Rightarrow> string" where
  "replaceSpaces inRun [] = []"
| "replaceSpaces inRun (ch # cs) =
    (if isSpace ch then (if inRun then replaceSpaces True cs else ''%20'' @ replaceSpaces True cs)
     else ch # replaceSpaces False cs)"

text \<open>
  The reducer of the grid layout of a tech stack:
  \<^verbatim>\<open>if (index % 3 === 0) acc.push([tech]); else acc[acc.length - 1].push(tech);\<close>
  Reading the last row of an empty accumulator gives \<^verbatim>\<open>undefined\<close>, and the call of
  \<^verbatim>\<open>push\<close> on it raises a TypeError.
\<close>

definition gridStep :: "string list list \<Rightarrow> string \<Rightarrow> nat \<Rightarrow> error + string list list" where
  "gridStep acc tech index =
    (if index mod 3 = 0 then Inr (acc @ [[tech]])
     else (case acc of
             [] \<Rightarrow> Inl TypeError
           | _ # _ \<Rightarrow> Inr (butlast acc @ [last acc @ [tech]])))"

text \<open>\<^verbatim>\<open>technologies.reduce(..., [])\<close>, with the running index made explicit.\<close>

fun reduceGrid :: "string list list \<Rightarrow> nat \<Rightarrow> string list \<Rightarrow> error + string list list" where
  "reduceGrid acc index [] = Inr acc"
| "reduceGrid acc index (tech # techs) =
    (case gridStep acc tech index of
       Inl err \<Rightarrow> Inl err
     | Inr acc' \<Rightarrow> reduceGrid acc' (Suc index) techs)"

definition tableRow :: "string list \<Rightarrow> string" where
  \<open>tableRow row = ''| '' @ join '' | '' row @ '' |''\<close>

definition techStackTitle :: string where
  \<open>techStackTitle = ''## '' @ [CHR 0xE2, CHR 0x9A, CHR 0xA1] @ '' Tech Stack\<newline>\<newline>''\<close>

definition techBadge :: "string \<Rightarrow> string" where
  \<open>techBadge tech =
    ''!['' @ tech @ ''](https://img.shields.io/badge/-'' @ tech @
    ''-05122A?style=flat&logo='' @ toLowerCase tech @ '')''\<close>

definition techStackMarkdown :: "element \<Rightarrow> error + string" where
  \<open>techStackMarkdown e =
    (if layout e = ''badges'' then
       Inr (techStackTitle @ join '' '' (map techBadge (technologies e)) @ ''\<newline>\<newline>'')
     else if layout e = ''list'' then
       Inr (techStackTitle @ join ''\<newline>'' (map (\<lambda>tech. ''- '' @ tech) (technologies e))
            @ ''\<newline>\<newline>'')
     else
       (case reduceGrid [] 0 (technologies e) of
          Inl err \<Rightarrow> Inl err
        | Inr grid \<Rightarrow>
            Inr (techStackTitle @ ''| | | |\<newline>|---|---|---|\<newline>'' @
                 join ''\<newline>'' (map tableRow grid) @ ''\<newline>\<newline>'')))\<close>

definition gitContributionMarkdown :: "element \<Rightarrow> string" where
  \<open>gitContributionMarkdown e =
    ''## '' @ [CHR 0xF0, CHR 0x9F, CHR 0xA4, CHR 0x9D] @
    '' How to Contribute\<newline>\<newline>1. Fork the repository\<newline>'' @
    ''2. Clone your fork: `git clone https://github.com/'' @ username e @ ''/'' @
    repository e @ ''.git`\<newline>'' @
    ''3. Create a feature branch: `git checkout -b feature-name`\<newline>'' @
    ''4. Make your changes and commit: `git commit -m "Add feature"`\<newline>'' @
    ''5. Push to your fork: `git push origin feature-name`\<newline>'' @
    ''6. Create a Pull Request\<newline>\<newline>''\<close>

definition tableMarkdown :: "element \<Rightarrow> string" where
  \<open>tableMarkdown e =
    (let headerRow = ''| '' @ join '' | '' (headers e) @ '' |'';
         separator = ''| '' @ join '' | '' (map (\<lambda>_. ''---'') (headers e)) @ '' |'';
         dataRows = join ''\<newline>'' (map (\<lambda>row. ''| '' @ join '' | '' row @ '' |'') (rows e))
     in headerRow @ ''\<newline>'' @ separator @ ''\<newline>'' @ dataRows @ ''\<newline>\<newline>'')\<close>

definition dividerMarkdown :: "element \<Rightarrow> string" where
  \<open>dividerMarkdown e =
    (if dividerStyle e = ''dots'' then
       ''<div align="center">'' @
       [CHR 0xE2, CHR 0x80, CHR 0xA2, CHR '' '', CHR 0xE2, CHR 0x80, CHR 0xA2, CHR '' '',
        CHR 0xE2, CHR 0x80, CHR 0xA2] @ ''</div>\<newline>\<newline>''
     else if dividerStyle e = ''stars'' then
       ''<div align="center">'' @
       [CHR 0xE2, CHR 0xAD, CHR 0x90, CHR '' '', CHR 0xE2, CHR 0xAD, CHR 0x90, CHR '' '',
        CHR 0xE2, CHR 0xAD, CHR 0x90] @ ''</div>\<newline>\<newline>''
     else ''---\<newline>\<newline>'')\<close>

text \<open>
  The callback of \<^verbatim>\<open>filteredElements.map\<close>: the \<^verbatim>\<open>switch\<close> on the kind, case by
  case in the order of the source, ending in the \<^verbatim>\<open>default\<close> branch.
\<close>

definition elementMarkdown :: "element \<Rightarrow> error + string" where
  \<open>elementMarkdown e =
    (if type e = ''header'' then Inr (''# '' @ content e @ ''\<newline>\<newline>'')
     else if type e = ''text'' then Inr (content e @ ''\<newline>\<newline>'')
     else if type e = ''banner'' then
       Inr (''<div align="center">\<newline>  <h1>'' @ content e @
            ''</h1>\<newline></div>\<newline>\<newline>'')
     else if type e = ''git-contribution'' then Inr (gitContributionMarkdown e)
     else if type e = ''tech-stack'' then techStackMarkdown e
     else if type e = ''image'' then
       Inr (''!['' @ alt e @ ''](''  @ src e @ '')\<newline>\<newline>'')
     else if type e = ''code-block'' then
       Inr (''```'' @
            (case language e of
               None \<Rightarrow> ''javascript''
             | Some l \<Rightarrow> if l = [] then ''javascript'' else l) @
            ''\<newline>'' @ content e @ ''\<newline>```\<newline>\<newline>'')
     else if type e = ''badge'' then
       Inr (''!['' @ content e @ ''](https://img.shields.io/badge/-'' @
            replaceSpaces False (content e) @ ''-brightgreen)\<newline>\<newline>'')
     else if type e = ''table'' then Inr (tableMarkdown e)
     else if type e = ''divider'' then Inr (dividerMarkdown e)
     else if type e = ''installation'' then
       Inr (''## Installation\<newline>\<newline>```bash\<newline>'' @ content e @
            ''\<newline>```\<newline>\<newline>'')
     else Inr [])\<close>

text \<open>\<^verbatim>\<open>Array.prototype.map\<close> with a callback that may raise: the first failure ends it.\<close>

fun mapElements :: "('a \<Rightarrow> error + 'b) \<Rightarrow> 'a list \<Rightarrow> error + 'b list" where
  "mapElements f [] = Inr []"
| "mapElements f (x # xs) =
    (case f x of
       Inl err \<Rightarrow> Inl err
     | Inr y \<Rightarrow> (case mapElements f xs of Inl err \<Rightarrow> Inl err | Inr ys \<Rightarrow> Inr (y # ys)))"

text \<open>
  The chain \<^verbatim>\<open>.map(...).join('')\<close> of \<^verbatim>\<open>generateMarkdown\<close>, on the list it is
  applied to.
\<close>

definition renderElements :: "element list \<Rightarrow> error + string" where
  "renderElements es =
    (case mapElements elementMarkdown es of
       Inl err \<Rightarrow> Inl err
     | Inr parts \<Rightarrow> Inr (join [] parts))"

text \<open>
  \<^verbatim>\<open>generateMarkdown\<close> in a render of the component on the props \<open>c\<close>, with the
  filtered list computed from these props. A render whose filter raises ends there, and
  nothing that needs the list runs.
\<close>

definition generateMarkdown :: "component \<Rightarrow> error + string" where
  "generateMarkdown c =
    (case filteredElements c of
       Inl err \<Rightarrow> Inl err
     | Inr visible \<Rightarrow> renderElements visible)"

text \<open>The kinds that have a case of their own in the \<^verbatim>\<open>switch\<close>.\<close>

definition renderedKinds :: "string list" where
  "renderedKinds =
    [''header'', ''text'', ''banner'', ''git-contribution'', ''tech-stack'', ''image'',
     ''code-block'', ''badge'', ''table'', ''divider'', ''installation'']"

section \<open>Download action\<close>











section \<open>The memoised list\<close>

text \<open>
  \<^verbatim>\<open>useMemo(..., [elements, viewMode])\<close> keeps the filtered list of the last
  computation together with the two dependencies it was computed for, and compares the
  dependencies of a later render by identity: an array is the same when it is the same
  reference, whatever it holds by then. To say this, arrays and element objects live in a
  heap and are named by references; the cached list is an array of references to element
  objects.
\<close>

record heap =
  arrays :: "nat \<Rightarrow> nat list"
  objects :: "nat \<Rightarrow> element"

text \<open>
  A mounted component between two renders: the props of the coming render (the reference
  of the elements array and the optional view mode), the cell of \<^verbatim>\<open>useMemo\<close> (empty
  before the first render) and the UI state.
\<close>

record mounted =
  elementsRef :: nat
  modeProp :: "ViewMode option"
  memoCell :: "(nat \<times> ViewMode \<times> nat list) option"
  copiedState :: bool
  themeState :: string
  darkState :: bool

text \<open>The props and the UI state of a mounted component, read off the heap.\<close>

definition snapshot :: "heap \<Rightarrow> mounted \<Rightarrow> component" where
  "snapshot h i =
    \<lparr>elements = map (objects h) (arrays h (elementsRef i)), viewMode = modeProp i,
     copied = copiedState i, theme = themeState i, prefersDark = darkState i\<rparr>"

text \<open>The callback of \<^verbatim>\<open>useMemo\<close>, on references.\<close>

definition computeFiltered :: "heap \<Rightarrow> mounted \<Rightarrow> error + nat list" where
  "computeFiltered h i =
    filterElements (\<lambda>r. isVisible (currentMode (snapshot h i)) (objects h r))
      (arrays h (elementsRef i))"

text \<open>
  \<^verbatim>\<open>useMemo\<close>: the cached list when both dependencies are the ones of the cell,
  otherwise the list computed now, which is stored with its dependencies. When the
  callback raises, the render ends and the cell keeps what it had.
\<close>

definition useMemoFiltered :: "heap \<Rightarrow> mounted \<Rightarrow> error + nat list \<times> mounted" where
  "useMemoFiltered h i =
    (let m = currentMode (snapshot h i);
         recompute =
           (case computeFiltered h i of
              Inl err \<Rightarrow> Inl err
            | Inr refs \<Rightarrow> Inr (refs, i\<lparr>memoCell := Some (elementsRef i, m, refs)\<rparr>))
     in case memoCell i of
          None \<Rightarrow> recompute
        | Some (ref, m', cached) \<Rightarrow>
            if ref = elementsRef i \<and> m' = m then Inr (cached, i) else recompute)"

text \<open>
  The call \<^verbatim>\<open>{generateMarkdown()}\<close> in a render of a mounted component: the list comes
  from \<^verbatim>\<open>useMemo\<close>, and the element objects are read when the markdown is generated.
\<close>

definition renderedMarkdown :: "heap \<Rightarrow> mounted \<Rightarrow> error + string" where
  "renderedMarkdown h i =
    (case useMemoFiltered h i of
       Inl err \<Rightarrow> Inl err
     | Inr (refs, i') \<Rightarrow> renderElements (map (objects h) refs))"

text \<open>
  The cell is fresh for the coming render when it is empty, or was filled for another
  array reference or another view mode, or holds the list that the filter gives on the
  heap as it is now.
\<close>

definition cacheFresh :: "heap \<Rightarrow> mounted \<Rightarrow> bool" where
  "cacheFresh h i =
    (case memoCell i of
       None \<Rightarrow> True
     | Some (ref, m, cached) \<Rightarrow>
         ref \<noteq> elementsRef i \<or> m \<noteq> currentMode (snapshot h i) \<or>
         computeFiltered h i = Inr cached)"

section \<open>Auxiliary definitions for the proofs\<close>

text \<open>
  The invariant of the grid reducer: every row but the last is full, the last row holds
  one to three entries, and the running index agrees with the fill of the last row
  modulo three.
\<close>

definition gridInv :: "string list list \<Rightarrow> nat \<Rightarrow> bool" where
  "gridInv acc index =
    ((\<forall>row \<in> set (butlast acc). length row = 3) \<and>
     (if acc = [] then index mod 3 = 0
      else 1 \<le> length (last acc) \<and> length (last acc) \<le> 3 \<and>
           index mod 3 = length (last acc) mod 3))"

text \<open>Concrete inputs, used to run the theorems below on examples.\<close>

definition blankElement :: element where
  "blankElement =
    \<lparr>type = [], content = [], username = [], repository = [], layout = [],
     technologies = [], alt = [], src = [], language = None, headers = [], rows = [],
     dividerStyle = []\<rparr>"

definition previewOf :: "element list \<Rightarrow> ViewMode option \<Rightarrow> component" where
  "previewOf es m =
    \<lparr>elements = es, viewMode = m, copied = False, theme = ''system'', prefersDark = False\<rparr>"


text \<open>
  A heap with two element objects and one array, before and after a second element is
  pushed onto the array in place, and a component mounted on that array.
\<close>

definition heapBefore :: heap where
  "heapBefore =
    \<lparr>arrays = (\<lambda>a. if a = 0 then [0] else []),
     objects = (\<lambda>r. if r = 0 then blankElement\<lparr>type := ''header'', content := ''Kit''\<rparr>
                     else blankElement\<lparr>type := ''text'', content := ''bye''\<rparr>)\<rparr>"

definition heapAfter :: heap where
  "heapAfter = heapBefore\<lparr>arrays := (\<lambda>a. if a = 0 then [0, 1] else [])\<rparr>"

definition freshMount :: mounted where
  "freshMount =
    \<lparr>elementsRef = 0, modeProp = Some developer, memoCell = None, copiedState = False,
     themeState = ''system'', darkState = False\<rparr>"

text \<open>
  The same two elements in another array at other addresses, and a component mounted on
  it whose cell was filled for another array and whose UI state differs.
\<close>

definition heapMoved :: heap where
  "heapMoved =
    \<lparr>arrays = (\<lambda>a. if a = 5 then [7, 3] else []),
     objects = (\<lambda>r. if r = 7 then blankElement\<lparr>type := ''header'', content := ''Kit''\<rparr>
                     else blankElement\<lparr>type := ''text'', content := ''bye''\<rparr>)\<rparr>"

definition movedMount :: mounted where
  "movedMount =
    \<lparr>elementsRef = 5, modeProp = None, memoCell = Some (0, developer, [0]),
     copiedState = True, themeState = ''dark'', darkState = True\<rparr>"

section \<open>Auxiliary lemmas\<close>

lemma join_empty_sep: "join [] xs = concat xs"
  by (induction "[]::string" xs rule: join.induct) simp_all

lemma mapElements_append:
  "mapElements f (xs @ ys) =
    (case mapElements f xs of
       Inl err \<Rightarrow> Inl err
     | Inr as \<Rightarrow> (case mapElements f ys of Inl err \<Rightarrow> Inl err | Inr bs \<Rightarrow> Inr (as @ bs)))"
  by (induction xs) (auto split: sum.splits)

lemma set_last_butlast: "xs \<noteq> [] \<Longrightarrow> set xs = insert (last xs) (set (butlast xs))"
  by (cases xs rule: rev_cases) auto

lemma gridInv_empty: "gridInv [] 0"
  by (simp add: gridInv_def)

lemma gridStep_new_row:
  assumes "gridInv acc index" "index mod 3 = 0"
  shows "gridStep acc tech index = Inr (acc @ [[tech]])" "gridInv (acc @ [[tech]]) (Suc index)"
proof -
  show "gridStep acc tech index = Inr (acc @ [[tech]])"
    using assms(2) by (simp add: gridStep_def)
  have full: "acc \<noteq> [] \<Longrightarrow> length (last acc) = 3"
    using assms by (auto simp: gridInv_def)
  have "\<forall>row \<in> set acc. length row = 3"
  proof (cases "acc = []")
    case True then show ?thesis by simp
  next
    case False
    then have "set acc = insert (last acc) (set (butlast acc))"
      by (rule set_last_butlast)
    then show ?thesis using assms(1) full[OF False] by (auto simp: gridInv_def)
  qed
  moreover have "Suc index mod 3 = 1" using assms(2) by (simp add: mod_Suc)
  ultimately show "gridInv (acc @ [[tech]]) (Suc index)"
    by (simp add: gridInv_def)
qed

lemma gridStep_extend_row:
  assumes "gridInv acc index" "index mod 3 \<noteq> 0"
  shows "gridStep acc tech index = Inr (butlast acc @ [last acc @ [tech]])"
        "gridInv (butlast acc @ [last acc @ [tech]]) (Suc index)"
        "acc \<noteq> []"
proof -
  show ne: "acc \<noteq> []" using assms by (auto simp: gridInv_def)
  then show "gridStep acc tech index = Inr (butlast acc @ [last acc @ [tech]])"
    using assms(2) by (cases acc) (simp_all add: gridStep_def)
  have l: "1 \<le> length (last acc)" "length (last acc) \<le> 3" "index mod 3 = length (last acc) mod 3"
    using assms(1) ne by (simp_all add: gridInv_def)
  then have "length (last acc) < 3" using assms(2) by (cases "length (last acc) = 3") auto
  moreover have "Suc index mod 3 = Suc (length (last acc)) mod 3"
    using l(3) by (metis mod_Suc_eq)
  ultimately show "gridInv (butlast acc @ [last acc @ [tech]]) (Suc index)"
    using assms(1) by (simp add: gridInv_def)
qed

lemma gridStep_inv:
  assumes "gridInv acc index"
  shows "\<exists>acc'. gridStep acc tech index = Inr acc' \<and> gridInv acc' (Suc index) \<and>
           concat acc' = concat acc @ [tech]"
proof (cases "index mod 3 = 0")
  case True
  have "concat (acc @ [[tech]]) = concat acc @ [tech]" by simp
  then show ?thesis using gridStep_new_row[OF assms True, of tech] by blast
next
  case False
  have "concat (butlast acc @ [last acc]) = concat acc"
    using gridStep_extend_row(3)[OF assms False] by simp
  then have "concat (butlast acc @ [last acc @ [tech]]) = concat acc @ [tech]"
    by simp
  then show ?thesis using gridStep_extend_row(1,2)[OF assms False, of tech] by blast
qed

lemma reduceGrid_inv:
  "gridInv acc index \<Longrightarrow>
    \<exists>grid. reduceGrid acc index techs = Inr grid \<and> gridInv grid (index + length techs) \<and>
      concat grid = concat acc @ techs"
proof (induction techs arbitrary: acc index)
  case Nil
  then show ?case by simp
next
  case (Cons tech techs)
  from gridStep_inv[OF Cons.prems, of tech] obtain acc' where
    s: "gridStep acc tech index = Inr acc'" "gridInv acc' (Suc index)"
       "concat acc' = concat acc @ [tech]" by blast
  from Cons.IH[OF s(2)] obtain grid where
    r: "reduceGrid acc' (Suc index) techs = Inr grid" "gridInv grid (Suc index + length techs)"
    "concat grid = concat acc' @ techs" by blast
  have "reduceGrid acc index (tech # techs) = Inr grid" using s(1) r(1) by simp
  moreover have "gridInv grid (index + length (tech # techs))" using r(2) by simp
  moreover have "concat grid = concat acc @ tech # techs" using r(3) s(3) by simp
  ultimately show ?case by blast
qed

lemma gridInv_rows:
  assumes "gridInv grid n"
  shows "(\<forall>row \<in> set grid. row \<noteq> [] \<and> length row \<le> 3) \<and>
         (\<forall>row \<in> set (butlast grid). length row = 3)"
proof (cases "grid = []")
  case True then show ?thesis by simp
next
  case False
  then have "set grid = insert (last grid) (set (butlast grid))"
    by (rule set_last_butlast)
  then show ?thesis using assms False by (auto simp: gridInv_def)
qed







lemma tableRow_fun: \<open>tableRow = (\<lambda>row. ''| '' @ join '' | '' row @ '' |'')\<close>
  by (simp add: fun_eq_iff tableRow_def)

lemma renderElements_skip:
  assumes "elementMarkdown e = Inr []"
  shows "renderElements (pre @ e # post) = renderElements (pre @ post)"
  using assms
  by (simp add: renderElements_def mapElements_append join_empty_sep split: sum.splits)

lemma inherited_no_entries: "\<forall>k \<in> set inheritedMembers. map_of visibilityMap k = None"
  by (simp add: inheritedMembers_def visibilityMap_def)

lemma inherited_no_entry: "k \<in> set inheritedMembers \<Longrightarrow> map_of visibilityMap k = None"
  using inherited_no_entries by blast

lemma isVisible_inherited: "type e \<in> set inheritedMembers \<Longrightarrow> isVisible m e = Inl TypeError"
  by (simp add: isVisible_def allowed_def inherited_no_entry)

lemma isVisible_other: "type e \<notin> set inheritedMembers \<Longrightarrow> isVisible m e = Inr (specVisible m e)"
  by (cases m) (simp_all add: isVisible_def allowed_def specVisible_def split: option.split)

lemma filterElements_isVisible:
  "filterElements (isVisible m) es =
    (if \<exists>e \<in> set es. type e \<in> set inheritedMembers then Inl TypeError
     else Inr (filter (specVisible m) es))"
proof (induction es)
  case Nil
  then show ?case by simp
next
  case (Cons e es)
  show ?case
  proof (cases "type e \<in> set inheritedMembers")
    case True
    then show ?thesis by (simp add: isVisible_inherited)
  next
    case False
    then show ?thesis using Cons.IH by (simp add: isVisible_other)
  qed
qed

lemma filterElements_map:
  "filterElements p (map f xs) =
    (case filterElements (\<lambda>x. p (f x)) xs of
       Inl err \<Rightarrow> Inl err
     | Inr ys \<Rightarrow> Inr (map f ys))"
  by (induction xs) (simp_all split: sum.splits)

lemma computeFiltered_snapshot:
  "filteredElements (snapshot h i) =
    (case computeFiltered h i of
       Inl err \<Rightarrow> Inl err
     | Inr refs \<Rightarrow> Inr (map (objects h) refs))"
proof -
  have "elements (snapshot h i) = map (objects h) (arrays h (elementsRef i))"
    by (simp add: snapshot_def)
  then show ?thesis
    by (simp add: filteredElements_def computeFiltered_def filterElements_map)
qed

lemma renderedMarkdown_fresh:
  assumes "cacheFresh h i"
  shows "renderedMarkdown h i = generateMarkdown (snapshot h i)"
proof -
  have recompute:
    "(case computeFiltered h i of
        Inl err \<Rightarrow> Inl err
      | Inr refs \<Rightarrow> renderElements (map (objects h) refs)) = generateMarkdown (snapshot h i)"
    by (simp add: generateMarkdown_def computeFiltered_snapshot split: sum.splits)
  show ?thesis
  proof (cases "memoCell i")
    case None
    then show ?thesis
      using recompute by (simp add: renderedMarkdown_def useMemoFiltered_def split: sum.splits)
  next
    case (Some cell)
    obtain ref m cached where cell: "cell = (ref, m, cached)" by (cases cell)
    show ?thesis
    proof (cases "ref = elementsRef i \<and> m = currentMode (snapshot h i)")
      case True
      then have "computeFiltered h i = Inr cached"
        using assms Some cell by (simp add: cacheFresh_def)
      then have "renderElements (map (objects h) cached) = generateMarkdown (snapshot h i)"
        using recompute by simp
      then show ?thesis
        using True Some cell by (simp add: renderedMarkdown_def useMemoFiltered_def)
    next
      case False
      then show ?thesis
        using recompute Some cell
        by (auto simp: renderedMarkdown_def useMemoFiltered_def split: sum.splits)
    qed
  qed
qed

section \<open>The visibility filter\<close>




text \<open>
  C6. The visibility filter is idempotent: filtering its own output again, with the same
  view mode, returns that output unchanged. (A filter that raises has no output to filter
  again; the first equation says that filtering twice is filtering once in either case.)
\<close>

theorem filteredElements_idempotent:
  "(case filteredElements c of
      Inl err \<Rightarrow> Inl err
    | Inr ys \<Rightarrow> filteredElements (c\<lparr>elements := ys\<rparr>)) = filteredElements c \<and>
   (filteredElements c = Inr ys \<longrightarrow> filteredElements (c\<lparr>elements := ys\<rparr>) = Inr ys)"
proof -
  let ?m = "currentMode c"
  have again: "filteredElements (c\<lparr>elements := zs\<rparr>) = Inr zs"
    if "filteredElements c = Inr zs" for zs
  proof -
    from that have ok: "\<not> (\<exists>e \<in> set (elements c). type e \<in> set inheritedMembers)"
      and zs: "zs = filter (specVisible ?m) (elements c)"
      by (auto simp: filteredElements_def filterElements_isVisible split: if_splits)
    from ok zs have "\<not> (\<exists>e \<in> set zs. type e \<in> set inheritedMembers)" by auto
    moreover have "filter (specVisible ?m) zs = zs" using zs by simp
    ultimately show ?thesis
      by (simp add: filteredElements_def filterElements_isVisible currentMode_def)
  qed
  have "(case filteredElements c of
           Inl err \<Rightarrow> Inl err
         | Inr ys \<Rightarrow> filteredElements (c\<lparr>elements := ys\<rparr>)) = filteredElements c"
    using again by (cases "filteredElements c") simp_all
  with again show ?thesis by blast
qed

theorem filteredElements_idempotent_witness:
  "filteredElements
     (previewOf [blankElement\<lparr>type := ''header''\<rparr>, blankElement\<lparr>type := ''installation''\<rparr>,
                 blankElement\<lparr>type := ''table''\<rparr>] (Some client))
   = Inr [blankElement\<lparr>type := ''header''\<rparr>, blankElement\<lparr>type := ''table''\<rparr>] \<and>
   filteredElements
     (previewOf [blankElement\<lparr>type := ''header''\<rparr>, blankElement\<lparr>type := ''table''\<rparr>]
        (Some client))
   = Inr [blankElement\<lparr>type := ''header''\<rparr>, blankElement\<lparr>type := ''table''\<rparr>]"
proof -
  let ?c = "previewOf [blankElement\<lparr>type := ''header''\<rparr>, blankElement\<lparr>type := ''installation''\<rparr>,
                       blankElement\<lparr>type := ''table''\<rparr>] (Some client)"
  have f: "filteredElements ?c =
             Inr [blankElement\<lparr>type := ''header''\<rparr>, blankElement\<lparr>type := ''table''\<rparr>]"
    by (simp add: filteredElements_def previewOf_def currentMode_def isVisible_def allowed_def
        visibilityMap_def inheritedMembers_def)
  show ?thesis
    using f filteredElements_idempotent
      [where c = ?c and ys = "[blankElement\<lparr>type := ''header''\<rparr>, blankElement\<lparr>type := ''table''\<rparr>]"]
    by (simp add: previewOf_def)
qed

text \<open>
  C3. An element of kind \<^verbatim>\<open>tech-stack\<close> or \<^verbatim>\<open>code-block\<close> has no entry in the
  visibility table (whose keys are \<^verbatim>\<open>tech\<close> and \<^verbatim>\<open>codeblock\<close>), so it is visible
  in every view mode and the filter keeps it; no kind that the generator renders is named
  \<^verbatim>\<open>tech\<close> or \<^verbatim>\<open>codeblock\<close>, and an element of one of these two kinds renders as
  the empty string.
\<close>

theorem tech_stack_and_code_block_always_visible:
  "(type e = ''tech-stack'' \<or> type e = ''code-block'' \<longrightarrow>
      map_of visibilityMap (type e) = None \<and> isVisible m e = Inr True \<and>
      filteredElements (c\<lparr>elements := [e]\<rparr>) = Inr [e]) \<and>
   (type e \<in> set renderedKinds \<longrightarrow> type e \<noteq> ''tech'' \<and> type e \<noteq> ''codeblock'') \<and>
   (type e = ''tech'' \<or> type e = ''codeblock'' \<longrightarrow> elementMarkdown e = Inr [])"
proof -
  have a: "map_of visibilityMap (type e) = None \<and> isVisible m' e = Inr True"
    if "type e = ''tech-stack'' \<or> type e = ''code-block''" for m'
    using that
    by (cases m') (auto simp: isVisible_def allowed_def visibilityMap_def inheritedMembers_def)
  have "filteredElements (c\<lparr>elements := [e]\<rparr>) = Inr [e]"
    if "type e = ''tech-stack'' \<or> type e = ''code-block''"
    using a[OF that, of "currentMode c"] by (simp add: filteredElements_def currentMode_def)
  moreover have "type e \<in> set renderedKinds \<longrightarrow> type e \<noteq> ''tech'' \<and> type e \<noteq> ''codeblock''"
    by (auto simp: renderedKinds_def)
  moreover have "type e = ''tech'' \<or> type e = ''codeblock'' \<longrightarrow> elementMarkdown e = Inr []"
    by (auto simp: elementMarkdown_def)
  ultimately show ?thesis using a[of m] by blast
qed

theorem tech_stack_and_code_block_always_visible_witness:
  "isVisible developer (blankElement\<lparr>type := ''tech-stack''\<rparr>) = Inr True \<and>
   isVisible recruiter (blankElement\<lparr>type := ''tech-stack''\<rparr>) = Inr True \<and>
   isVisible client (blankElement\<lparr>type := ''code-block''\<rparr>) = Inr True \<and>
   filteredElements (previewOf [blankElement\<lparr>type := ''code-block''\<rparr>] (Some client)) =
     Inr [blankElement\<lparr>type := ''code-block''\<rparr>] \<and>
   elementMarkdown (blankElement\<lparr>type := ''codeblock'', content := ''x''\<rparr>) = Inr []"
  using tech_stack_and_code_block_always_visible
          [where e = "blankElement\<lparr>type := ''tech-stack''\<rparr>" and m = developer]
        tech_stack_and_code_block_always_visible
          [where e = "blankElement\<lparr>type := ''tech-stack''\<rparr>" and m = recruiter]
        tech_stack_and_code_block_always_visible
          [where e = "blankElement\<lparr>type := ''code-block''\<rparr>" and m = client
             and c = "previewOf [] (Some client)"]
        tech_stack_and_code_block_always_visible
          [where e = "blankElement\<lparr>type := ''codeblock'', content := ''x''\<rparr>"]
  by (simp add: previewOf_def)

section \<open>The markdown templates\<close>

text \<open>
  C8. For a header element the generator returns \<^verbatim>\<open># \<close> followed by the content of the
  element and a blank line.
\<close>

theorem header_markdown:
  "type e = ''header'' \<Longrightarrow> elementMarkdown e = Inr (''# '' @ content e @ ''\<newline>\<newline>'')"
  by (simp add: elementMarkdown_def)

theorem header_markdown_witness:
  "type (blankElement\<lparr>type := ''header'', content := ''Kit''\<rparr>) = ''header'' \<and>
   elementMarkdown (blankElement\<lparr>type := ''header'', content := ''Kit''\<rparr>) = Inr ''# Kit\<newline>\<newline>''"
  using header_markdown [of "blankElement\<lparr>type := ''header'', content := ''Kit''\<rparr>"]
  by simp

text \<open>
  C4. For a divider element the generator returns the centred line of three bullets
  (each bullet is U+2022, the bytes E2 80 A2) when the style is \<^verbatim>\<open>dots\<close>, and the
  rule \<^verbatim>\<open>---\<close> followed by a blank line when the style is neither \<^verbatim>\<open>dots\<close> nor
  \<^verbatim>\<open>stars\<close>.
\<close>

theorem divider_markdown:
  \<open>type e = ''divider'' \<Longrightarrow>
    (dividerStyle e = ''dots'' \<longrightarrow>
       elementMarkdown e =
         Inr (''<div align="center">'' @
              [CHR 0xE2, CHR 0x80, CHR 0xA2, CHR '' '', CHR 0xE2, CHR 0x80, CHR 0xA2, CHR '' '',
               CHR 0xE2, CHR 0x80, CHR 0xA2] @ ''</div>\<newline>\<newline>'')) \<and>
    (dividerStyle e \<noteq> ''dots'' \<and> dividerStyle e \<noteq> ''stars'' \<longrightarrow>
       elementMarkdown e = Inr ''---\<newline>\<newline>'')\<close>
  by (simp add: elementMarkdown_def dividerMarkdown_def)

theorem divider_markdown_witness:
  \<open>elementMarkdown (blankElement\<lparr>type := ''divider'', dividerStyle := ''dots''\<rparr>) =
     Inr (''<div align="center">'' @
          [CHR 0xE2, CHR 0x80, CHR 0xA2, CHR '' '', CHR 0xE2, CHR 0x80, CHR 0xA2, CHR '' '',
           CHR 0xE2, CHR 0x80, CHR 0xA2] @ ''</div>\<newline>\<newline>'') \<and>
   elementMarkdown (blankElement\<lparr>type := ''divider'', dividerStyle := ''line''\<rparr>) =
     Inr ''---\<newline>\<newline>''\<close>
  using divider_markdown [of \<open>blankElement\<lparr>type := ''divider'', dividerStyle := ''dots''\<rparr>\<close>]
        divider_markdown [of \<open>blankElement\<lparr>type := ''divider'', dividerStyle := ''line''\<rparr>\<close>]
  by simp

text \<open>
  C2. An element whose kind has no case in the switch of the generator is mapped to the
  empty string without any failure, and it adds nothing to the joined output: the chain of
  map and join gives the same on a list with the element as on the list without it, and
  so does the generator in a render whose filtered list holds the element.
\<close>

theorem unknown_kind_renders_nothing:
  assumes "type e \<notin> set renderedKinds"
  shows "elementMarkdown e = Inr [] \<and>
         renderElements (pre @ e # post) = renderElements (pre @ post) \<and>
         (filteredElements c = Inr (pre @ e # post) \<longrightarrow>
            generateMarkdown c = renderElements (pre @ post))"
proof -
  have empty_out: "elementMarkdown e = Inr []"
    using assms by (simp add: elementMarkdown_def renderedKinds_def)
  then have skip: "renderElements (pre @ e # post) = renderElements (pre @ post)"
    by (rule renderElements_skip)
  then have "filteredElements c = Inr (pre @ e # post) \<longrightarrow>
      generateMarkdown c = renderElements (pre @ post)"
    by (simp add: generateMarkdown_def)
  with empty_out skip show ?thesis by blast
qed

theorem unknown_kind_renders_nothing_witness:
  "type (blankElement\<lparr>type := ''features'', content := ''fast''\<rparr>) \<notin> set renderedKinds \<and>
   elementMarkdown (blankElement\<lparr>type := ''features'', content := ''fast''\<rparr>) = Inr [] \<and>
   filteredElements (previewOf ([blankElement\<lparr>type := ''header'', content := ''Kit''\<rparr>] @
       blankElement\<lparr>type := ''features'', content := ''fast''\<rparr> #
       [blankElement\<lparr>type := ''text'', content := ''bye''\<rparr>]) None) =
     Inr ([blankElement\<lparr>type := ''header'', content := ''Kit''\<rparr>] @
       blankElement\<lparr>type := ''features'', content := ''fast''\<rparr> #
       [blankElement\<lparr>type := ''text'', content := ''bye''\<rparr>]) \<and>
   generateMarkdown (previewOf ([blankElement\<lparr>type := ''header'', content := ''Kit''\<rparr>] @
       blankElement\<lparr>type := ''features'', content := ''fast''\<rparr> #
       [blankElement\<lparr>type := ''text'', content := ''bye''\<rparr>]) None) =
     Inr ''# Kit\<newline>\<newline>bye\<newline>\<newline>''"
proof -
  let ?e = "blankElement\<lparr>type := ''features'', content := ''fast''\<rparr>"
  let ?pre = "[blankElement\<lparr>type := ''header'', content := ''Kit''\<rparr>]"
  let ?post = "[blankElement\<lparr>type := ''text'', content := ''bye''\<rparr>]"
  have k: "type ?e \<notin> set renderedKinds"
    by (simp add: renderedKinds_def)
  have f: "filteredElements (previewOf (?pre @ ?e # ?post) None) = Inr (?pre @ ?e # ?post)"
    by (simp add: filteredElements_def previewOf_def currentMode_def isVisible_def allowed_def
        visibilityMap_def inheritedMembers_def)
  have r: "renderElements (?pre @ ?post) = Inr ''# Kit\<newline>\<newline>bye\<newline>\<newline>''"
    by (simp add: renderElements_def elementMarkdown_def)
  show ?thesis
    using k f r unknown_kind_renders_nothing
      [OF k, where c = "previewOf (?pre @ ?e # ?post) None" and pre = ?pre and post = ?post]
    by simp
qed

text \<open>
  C5. For a table element the output is the header row, then a separator row with one
  \<^verbatim>\<open>---\<close> group for each header (as many cells as there are columns), then the data
  rows in the order of the input, each row formatted as \<^verbatim>\<open>| a | b |\<close>.
\<close>

theorem table_markdown:
  assumes "type e = ''table''"
  shows "elementMarkdown e =
           Inr (tableRow (headers e) @ ''\<newline>'' @
                tableRow (replicate (length (headers e)) ''---'') @ ''\<newline>'' @
                join ''\<newline>'' (map tableRow (rows e)) @ ''\<newline>\<newline>'')"
proof -
  have "map (\<lambda>_. ''---'') (headers e) = replicate (length (headers e)) ''---''"
    by (simp add: map_replicate_const)
  then have "tableMarkdown e =
      tableRow (headers e) @ ''\<newline>'' @
      tableRow (replicate (length (headers e)) ''---'') @ ''\<newline>'' @
      join ''\<newline>'' (map tableRow (rows e)) @ ''\<newline>\<newline>''"
    by (simp add: tableMarkdown_def Let_def tableRow_fun)
  then show ?thesis using assms by (simp add: elementMarkdown_def)
qed

theorem table_markdown_witness:
  "elementMarkdown (blankElement\<lparr>type := ''table'', headers := [''a'', ''b''],
                                 rows := [[''1'', ''2''], [''3'', ''4'']]\<rparr>) =
     Inr ''| a | b |\<newline>| --- | --- |\<newline>| 1 | 2 |\<newline>| 3 | 4 |\<newline>\<newline>''"
  using table_markdown [of "blankElement\<lparr>type := ''table'', headers := [''a'', ''b''],
                                 rows := [[''1'', ''2''], [''3'', ''4'']]\<rparr>"]
  by (simp add: tableRow_def numeral_2_eq_2)

text \<open>
  C10. For a tech-stack element whose layout is neither \<^verbatim>\<open>badges\<close> nor \<^verbatim>\<open>list\<close>
  the reducer succeeds and arranges the technologies, in their order, into rows of one to
  three entries, every row but the last holding exactly three; these rows are what the
  generator prints.
\<close>

theorem tech_stack_grid_rows:
  assumes "type e = ''tech-stack''" and "layout e \<noteq> ''badges''" and "layout e \<noteq> ''list''"
  shows "\<exists>grid.
     reduceGrid [] 0 (technologies e) = Inr grid \<and>
     concat grid = technologies e \<and>
     (\<forall>row \<in> set grid. row \<noteq> [] \<and> length row \<le> 3) \<and>
     (\<forall>row \<in> set (butlast grid). length row = 3) \<and>
     elementMarkdown e =
       Inr (techStackTitle @ ''| | | |\<newline>|---|---|---|\<newline>'' @
            join ''\<newline>'' (map tableRow grid) @ ''\<newline>\<newline>'')"
proof -
  from reduceGrid_inv[OF gridInv_empty, of "technologies e"] obtain grid where
    g: "reduceGrid [] 0 (technologies e) = Inr grid" "gridInv grid (0 + length (technologies e))"
       "concat grid = concat [] @ technologies e" by blast
  have "elementMarkdown e = techStackMarkdown e"
    using assms(1) by (simp add: elementMarkdown_def)
  then have "elementMarkdown e =
       Inr (techStackTitle @ ''| | | |\<newline>|---|---|---|\<newline>'' @
            join ''\<newline>'' (map tableRow grid) @ ''\<newline>\<newline>'')"
    using assms(2,3) g(1) by (simp add: techStackMarkdown_def)
  moreover have "concat grid = technologies e" using g(3) by simp
  ultimately show ?thesis using g(1) gridInv_rows[OF g(2)] by blast
qed

theorem tech_stack_grid_rows_witness:
  "reduceGrid [] 0 [''a'', ''b'', ''c'', ''d''] = Inr [[''a'', ''b'', ''c''], [''d'']] \<and>
   elementMarkdown (blankElement\<lparr>type := ''tech-stack'', layout := ''grid'',
                                 technologies := [''a'', ''b'', ''c'', ''d'']\<rparr>) =
     Inr (techStackTitle @ ''| | | |\<newline>|---|---|---|\<newline>| a | b | c |\<newline>| d |\<newline>\<newline>'')"
proof -
  have r: "reduceGrid [] 0 [''a'', ''b'', ''c'', ''d''] = Inr [[''a'', ''b'', ''c''], [''d'']]"
    by (simp add: gridStep_def mod_Suc)
  show ?thesis
    using r tech_stack_grid_rows [of "blankElement\<lparr>type := ''tech-stack'', layout := ''grid'',
                                 technologies := [''a'', ''b'', ''c'', ''d'']\<rparr>"]
    by (simp add: tableRow_def)
qed

section \<open>Purity of the generator\<close>

text \<open>
  C7 (as amended). In a render whose \<^verbatim>\<open>useMemo\<close> cell is fresh (empty, or filled for
  another array reference or view mode, or holding the list that the filter gives on the
  array as it is now), markdown generation is a function of the element list and the view
  mode alone: two such runs over equal element lists and the same view mode give the same
  result (the same string, or the same failure), whatever the UI state is and wherever
  the arrays and elements live.
\<close>

theorem renderedMarkdown_fresh_cache_deterministic:
  assumes "cacheFresh h i" and "cacheFresh h' i'"
    and "map (objects h) (arrays h (elementsRef i)) =
         map (objects h') (arrays h' (elementsRef i'))"
    and "currentMode (snapshot h i) = currentMode (snapshot h' i')"
  shows "renderedMarkdown h i = renderedMarkdown h' i'"
proof -
  have "elements (snapshot h i) = elements (snapshot h' i')"
    using assms(3) by (simp add: snapshot_def)
  then have "filteredElements (snapshot h i) = filteredElements (snapshot h' i')"
    using assms(4) by (simp add: filteredElements_def)
  then have "generateMarkdown (snapshot h i) = generateMarkdown (snapshot h' i')"
    by (simp add: generateMarkdown_def)
  then show ?thesis
    using renderedMarkdown_fresh[OF assms(1)] renderedMarkdown_fresh[OF assms(2)] by simp
qed

theorem renderedMarkdown_fresh_cache_deterministic_witness:
  "renderedMarkdown heapAfter freshMount = Inr ''# Kit\<newline>\<newline>bye\<newline>\<newline>'' \<and>
   renderedMarkdown heapMoved movedMount = Inr ''# Kit\<newline>\<newline>bye\<newline>\<newline>''"
proof -
  have a: "cacheFresh heapAfter freshMount"
    by (simp add: cacheFresh_def freshMount_def)
  have b: "cacheFresh heapMoved movedMount"
    by (simp add: cacheFresh_def movedMount_def)
  have c: "map (objects heapAfter) (arrays heapAfter (elementsRef freshMount)) =
           map (objects heapMoved) (arrays heapMoved (elementsRef movedMount))"
    by (simp add: heapAfter_def heapBefore_def heapMoved_def freshMount_def movedMount_def)
  have d: "currentMode (snapshot heapAfter freshMount) = currentMode (snapshot heapMoved movedMount)"
    by (simp add: currentMode_def snapshot_def freshMount_def movedMount_def)
  have "renderedMarkdown heapAfter freshMount = Inr ''# Kit\<newline>\<newline>bye\<newline>\<newline>''"
    by (simp add: renderedMarkdown_def useMemoFiltered_def computeFiltered_def snapshot_def
        currentMode_def freshMount_def heapAfter_def heapBefore_def isVisible_def allowed_def
        visibilityMap_def inheritedMembers_def renderElements_def elementMarkdown_def)
  then show ?thesis
    using renderedMarkdown_fresh_cache_deterministic [OF a b c d] by simp
qed

theorem renderedMarkdown_stale_cache_counterexample:
  "useMemoFiltered heapBefore freshMount =
     Inr ([0], freshMount\<lparr>memoCell := Some (0, developer, [0])\<rparr>) \<and>
   elementsRef (freshMount\<lparr>memoCell := Some (0, developer, [0])\<rparr>) = elementsRef freshMount \<and>
   modeProp (freshMount\<lparr>memoCell := Some (0, developer, [0])\<rparr>) = modeProp freshMount \<and>
   renderedMarkdown heapAfter (freshMount\<lparr>memoCell := Some (0, developer, [0])\<rparr>) =
     Inr ''# Kit\<newline>\<newline>'' \<and>
   renderedMarkdown heapAfter freshMount = Inr ''# Kit\<newline>\<newline>bye\<newline>\<newline>'' \<and>
   renderedMarkdown heapAfter (freshMount\<lparr>memoCell := Some (0, developer, [0])\<rparr>) \<noteq>
     renderedMarkdown heapAfter freshMount"
  by (simp add: renderedMarkdown_def useMemoFiltered_def computeFiltered_def snapshot_def
      currentMode_def freshMount_def heapAfter_def heapBefore_def isVisible_def allowed_def
      visibilityMap_def inheritedMembers_def renderElements_def elementMarkdown_def)

section \<open>The download\<close>




end
